theory Spec2Isabelle
  imports Main "HOL-Library.Word" "HOL-Library.Multiset"
begin

section \<open>JavaScript values\<close>

text \<open>
  A JavaScript string is a sequence of UTF-16 code units; an \<open>ArrayBuffer\<close> is a
  sequence of bytes.  \<open>str\<close> embeds an ASCII literal of the source.
\<close>

type_synonym jsstring = "16 word list"
type_synonym ArrayBuffer = "8 word list"

definition str :: "string \<Rightarrow> jsstring" where
  "str cs = map (\<lambda>c. of_nat (of_char c)) cs"

text \<open>
  \<open>String.prototype.trim\<close> strips the code units of the ECMAScript productions
  WhiteSpace and LineTerminator from both ends.
\<close>

definition isWhiteSpace :: "16 word \<Rightarrow> bool" where
  "isWhiteSpace c \<longleftrightarrow>
     c \<in> {0x0009, 0x000A, 0x000B, 0x000C, 0x000D, 0x0020, 0x00A0, 0x1680,
          0x2028, 0x2029, 0x202F, 0x205F, 0x3000, 0xFEFF}
     \<or> (0x2000 \<le> c \<and> c \<le> 0x200A)"

definition js_trim :: "jsstring \<Rightarrow> jsstring" where
  "js_trim s = rev (dropWhile isWhiteSpace (rev (dropWhile isWhiteSpace s)))"

text \<open>
  \<open>s.replace(pat, rep)\<close> with a string pattern rewrites the occurrence of \<open>pat\<close>
  at the lowest index and nothing else; without an occurrence \<open>s\<close> is returned.
\<close>

fun starts_with :: "'a list \<Rightarrow> 'a list \<Rightarrow> bool" where
  "starts_with [] s = True"
| "starts_with (p # ps) [] = False"
| "starts_with (p # ps) (c # cs) = (p = c \<and> starts_with ps cs)"

fun js_replace :: "'a list \<Rightarrow> 'a list \<Rightarrow> 'a list \<Rightarrow> 'a list" where
  "js_replace pat rep [] = (if pat = [] then rep else [])"
| "js_replace pat rep (c # cs) =
     (if starts_with pat (c # cs) then rep @ drop (length pat) (c # cs)
      else c # js_replace pat rep cs)"

text \<open>
  \<open>Array.prototype.sort(cmp)\<close> is stable: elements that compare equal keep their
  order.  \<open>cmp a b \<le> 0\<close> leaves \<open>a\<close> in front of \<open>b\<close>.
\<close>

fun sort_insert :: "('a \<Rightarrow> 'a \<Rightarrow> int) \<Rightarrow> 'a \<Rightarrow> 'a list \<Rightarrow> 'a list" where
  "sort_insert cmp a [] = [a]"
| "sort_insert cmp a (b # bs) =
     (if cmp a b \<le> 0 then a # b # bs else b # sort_insert cmp a bs)"

fun js_sort :: "('a \<Rightarrow> 'a \<Rightarrow> int) \<Rightarrow> 'a list \<Rightarrow> 'a list" where
  "js_sort cmp [] = []"
| "js_sort cmp (a # as) = sort_insert cmp a (js_sort cmp as)"

text \<open>\<open>x || undefined\<close> on a value of type \<open>string | null\<close>: the empty string is falsy.\<close>

fun or_undefined :: "jsstring option \<Rightarrow> jsstring option" where
  "or_undefined None = None"
| "or_undefined (Some c) = (if c = [] then None else Some c)"

section \<open>Data model (types.ts)\<close>

record PDFDocument =
  doc_id :: jsstring
  doc_name :: jsstring
  description :: "jsstring option"
  doc_size :: nat
  doc_type :: jsstring
  doc_data :: ArrayBuffer
  coverImage :: "jsstring option"
  addedAt :: int

text \<open>Whatever a callee throws; the handlers never look inside.\<close>

datatype error =
    StorageUnavailable
  | StorageQuotaExceeded
  | UnsupportedContent
  | NotReadableError
  | TypeError

text \<open>
  The browser's \<open>File\<close>: its name, its size in bytes, its media type, and what
  \<open>arrayBuffer()\<close> settles with.
\<close>

record File =
  file_name :: jsstring
  file_size :: nat
  file_type :: jsstring
  arrayBuffer :: "error + ArrayBuffer"


section \<open>The collaborators of the component\<close>

text \<open>
  The module \<open>services/storage.ts\<close> is imported by \<open>App.tsx\<close> for its three
  functions.  They are a parameter of the model: each takes the store, settles with a
  value or an error, and leaves a store behind.
\<close>

record 'st Storage =
  getDocuments :: "'st \<Rightarrow> (error + PDFDocument list) \<times> 'st"
  saveDocument :: "PDFDocument \<Rightarrow> 'st \<Rightarrow> (error + unit) \<times> 'st"
  deleteDocument :: "jsstring \<Rightarrow> 'st \<Rightarrow> (error + unit) \<times> 'st"

text \<open>
  The \<open>jsPDF\<close> library, as far as \<open>createPDF\<close> uses it; \<open>'d\<close> is the library's
  document object.  Any of the calls may throw.
\<close>

record 'd jsPDF =
  new_jsPDF :: "jsstring \<Rightarrow> jsstring \<Rightarrow> jsstring \<Rightarrow> error + 'd"
  setFont :: "jsstring \<Rightarrow> jsstring \<Rightarrow> 'd \<Rightarrow> error + 'd"
  setProperties :: "jsstring \<Rightarrow> jsstring \<Rightarrow> 'd \<Rightarrow> error + 'd"
  setFontSize :: "nat \<Rightarrow> 'd \<Rightarrow> error + 'd"
  splitTextToSize :: "jsstring \<Rightarrow> nat \<Rightarrow> 'd \<Rightarrow> error + jsstring list"
  pdf_text :: "jsstring list \<Rightarrow> int \<Rightarrow> int \<Rightarrow> 'd \<Rightarrow> error + 'd"
  pdf_output :: "'d \<Rightarrow> error + ArrayBuffer"

text \<open>What \<open>crypto.randomUUID()\<close> and \<open>Date.now()\<close> give to one handler run.\<close>

record Env =
  randomUUID :: "error + jsstring"
  dateNow :: int

section \<open>The factory (services/pdfFactory.ts)\<close>

definition andThen :: "error + 'a \<Rightarrow> ('a \<Rightarrow> error + 'b) \<Rightarrow> error + 'b" where
  "andThen m f = (case m of Inl e \<Rightarrow> Inl e | Inr x \<Rightarrow> f x)"

definition createPDF :: "'d jsPDF \<Rightarrow> jsstring \<Rightarrow> jsstring \<Rightarrow> error + ArrayBuffer" where
  "createPDF lib title content =
     andThen (new_jsPDF lib (str ''p'') (str ''mm'') (str ''a4'')) (\<lambda>d0.
     andThen (setFont lib (str ''helvetica'') (str ''normal'') d0) (\<lambda>d1.
     andThen (setProperties lib title (str ''Static PDF Manager'') d1) (\<lambda>d2.
     andThen (setFontSize lib 24 d2) (\<lambda>d3.
     andThen (setFont lib (str ''helvetica'') (str ''bold'') d3) (\<lambda>d4.
     andThen (splitTextToSize lib title 170 d4) (\<lambda>splitTitle.
     andThen (pdf_text lib splitTitle 20 25 d4) (\<lambda>d5.
     let titleHeight = int (length splitTitle) * 10 + 15 in
     andThen (setFontSize lib 12 d5) (\<lambda>d6.
     andThen (setFont lib (str ''helvetica'') (str ''normal'') d6) (\<lambda>d7.
     andThen (splitTextToSize lib content 170 d7) (\<lambda>splitContent.
     andThen (pdf_text lib splitContent 20 (25 + titleHeight) d7) (\<lambda>d8.
     pdf_output lib d8)))))))))))"

section \<open>The controller (App.tsx)\<close>

datatype ViewMode = Library | Create

text \<open>The texts of the five \<open>alert\<close> calls, by the place that raises them.\<close>

datatype alert_msg =
    UploadFailed
  | TitleAndContentRequired
  | PdfCreated
  | CreateFailed
  | AllowPopups

text \<open>What a handler does to the outside, in the order it does it.\<close>

datatype event =
    GetDocumentsCall
  | SaveDocumentCall PDFDocument
  | DeleteDocumentCall jsstring
  | CreatePDFCall jsstring jsstring
  | Alert alert_msg
  | ConsoleError error

record 'st world =
  store :: 'st
  trace :: "event list"

definition emit :: "event list \<Rightarrow> 'st world \<Rightarrow> 'st world" where
  "emit evs w = w\<lparr>trace := trace w @ evs\<rparr>"

definition events_since :: "'st world \<Rightarrow> 'st world \<Rightarrow> event list" where
  "events_since w w' = drop (length (trace w)) (trace w')"

text \<open>The \<open>useState\<close> cells of the component.\<close>

record AppState =
  documents :: "PDFDocument list"
  viewMode :: ViewMode
  darkMode :: bool
  creatorTitle :: jsstring
  creatorContent :: jsstring
  creatorCover :: "jsstring option"
  showUploadModal :: bool
  uploadFile :: "File option"
  uploadCover :: "jsstring option"
  uploadName :: jsstring
  isProcessing :: bool

definition initialState :: AppState where
  "initialState =
     \<lparr>documents = [], viewMode = Library, darkMode = False,
      creatorTitle = [], creatorContent = [], creatorCover = None,
      showUploadModal = False, uploadFile = None, uploadCover = None,
      uploadName = [], isProcessing = False\<rparr>"

definition by_addedAt_desc :: "PDFDocument \<Rightarrow> PDFDocument \<Rightarrow> int" where
  "by_addedAt_desc a b = addedAt b - addedAt a"

definition loadDocuments :: "'st Storage \<Rightarrow> AppState \<Rightarrow> 'st world \<Rightarrow> AppState \<times> 'st world" where
  "loadDocuments api s w =
     (case getDocuments api (store w) of
        (Inr docs, st) \<Rightarrow>
          (s\<lparr>documents := js_sort by_addedAt_desc docs\<rparr>,
           emit [GetDocumentsCall] (w\<lparr>store := st\<rparr>))
      | (Inl e, st) \<Rightarrow>
          (s, emit [GetDocumentsCall, ConsoleError e] (w\<lparr>store := st\<rparr>)))"

definition handleFileSelect :: "File list option \<Rightarrow> AppState \<Rightarrow> AppState" where
  "handleFileSelect files s =
     (case files of
        Some (file # rest) \<Rightarrow>
          (let s1 = s\<lparr>uploadFile := Some file\<rparr> in
           if uploadName s = []
           then s1\<lparr>uploadName := js_replace (str ''.pdf'') [] (file_name file)\<rparr>
           else s1)
      | _ \<Rightarrow> s)"

definition resetUploadForm :: "AppState \<Rightarrow> AppState" where
  "resetUploadForm s =
     s\<lparr>uploadFile := None, uploadCover := None, uploadName := [], showUploadModal := False\<rparr>"

definition uploadDoc :: "AppState \<Rightarrow> File \<Rightarrow> ArrayBuffer \<Rightarrow> jsstring \<Rightarrow> int \<Rightarrow> PDFDocument" where
  "uploadDoc s f buf uuid now =
     \<lparr>doc_id = uuid,
      doc_name = (if uploadName s \<noteq> [] then uploadName s
                  else js_replace (str ''.pdf'') [] (file_name f)),
      description = None,
      doc_size = file_size f,
      doc_type = file_type f,
      doc_data = buf,
      coverImage = or_undefined (uploadCover s),
      addedAt = now\<rparr>"

definition confirmUpload ::
  "'st Storage \<Rightarrow> Env \<Rightarrow> AppState \<Rightarrow> 'st world \<Rightarrow> AppState \<times> 'st world" where
  "confirmUpload api env s w =
     (case uploadFile s of
        None \<Rightarrow> (s, w)
      | Some f \<Rightarrow>
          (let s0 = s\<lparr>isProcessing := True\<rparr>;
               (s1, w1) =
                 (case arrayBuffer f of
                    Inl e \<Rightarrow> (s0, emit [Alert UploadFailed] w)
                  | Inr buf \<Rightarrow>
                     (case randomUUID env of
                        Inl e \<Rightarrow> (s0, emit [Alert UploadFailed] w)
                      | Inr uuid \<Rightarrow>
                         (let newDoc = uploadDoc s f buf uuid (dateNow env) in
                          case saveDocument api newDoc (store w) of
                            (Inl e, st) \<Rightarrow>
                              (s0, emit [SaveDocumentCall newDoc, Alert UploadFailed]
                                     (w\<lparr>store := st\<rparr>))
                          | (Inr u, st) \<Rightarrow>
                              (let (s2, w2) =
                                     loadDocuments api s0
                                       (emit [SaveDocumentCall newDoc] (w\<lparr>store := st\<rparr>))
                               in (resetUploadForm s2, w2)))))
           in (s1\<lparr>isProcessing := False\<rparr>, w1)))"

definition createdDoc :: "AppState \<Rightarrow> ArrayBuffer \<Rightarrow> jsstring \<Rightarrow> int \<Rightarrow> PDFDocument" where
  "createdDoc s pdfBuffer uuid now =
     \<lparr>doc_id = uuid,
      doc_name = creatorTitle s,
      description = Some (str ''Gerado internamente''),
      doc_size = length pdfBuffer,
      doc_type = str ''application/pdf'',
      doc_data = pdfBuffer,
      coverImage = or_undefined (creatorCover s),
      addedAt = now\<rparr>"

definition handleCreatePDF ::
  "'st Storage \<Rightarrow> 'd jsPDF \<Rightarrow> Env \<Rightarrow> AppState \<Rightarrow> 'st world \<Rightarrow> AppState \<times> 'st world" where
  "handleCreatePDF api lib env s w =
     (if js_trim (creatorTitle s) = [] \<or> js_trim (creatorContent s) = []
      then (s, emit [Alert TitleAndContentRequired] w)
      else
        (let call = CreatePDFCall (creatorTitle s) (creatorContent s) in
         case createPDF lib (creatorTitle s) (creatorContent s) of
           Inl e \<Rightarrow> (s, emit [call, ConsoleError e, Alert CreateFailed] w)
         | Inr pdfBuffer \<Rightarrow>
            (case randomUUID env of
               Inl e \<Rightarrow> (s, emit [call, ConsoleError e, Alert CreateFailed] w)
             | Inr uuid \<Rightarrow>
                (let newDoc = createdDoc s pdfBuffer uuid (dateNow env) in
                 case saveDocument api newDoc (store w) of
                   (Inl e, st) \<Rightarrow>
                     (s, emit [call, SaveDocumentCall newDoc, ConsoleError e, Alert CreateFailed]
                           (w\<lparr>store := st\<rparr>))
                 | (Inr u, st) \<Rightarrow>
                     (let (s2, w2) =
                            loadDocuments api s
                              (emit [call, SaveDocumentCall newDoc] (w\<lparr>store := st\<rparr>))
                      in (s2\<lparr>creatorTitle := [], creatorContent := [],
                             creatorCover := None, viewMode := Library\<rparr>,
                          emit [Alert PdfCreated] w2))))))"

text \<open>
  \<open>deleteDoc\<close>: \<open>confirmed\<close> is the answer to the \<open>confirm\<close> dialog.  A rejected
  \<open>deleteDocument\<close> leaves the handler at the \<open>await\<close>, before the reload.  The
  reload is started without \<open>await\<close>; here it runs to its end.
\<close>

definition deleteDoc ::
  "'st Storage \<Rightarrow> jsstring \<Rightarrow> bool \<Rightarrow> AppState \<Rightarrow> 'st world \<Rightarrow> AppState \<times> 'st world" where
  "deleteDoc api ident confirmed s w =
     (if confirmed
      then (case deleteDocument api ident (store w) of
              (Inl e, st) \<Rightarrow> (s, emit [DeleteDocumentCall ident] (w\<lparr>store := st\<rparr>))
            | (Inr u, st) \<Rightarrow>
                loadDocuments api s (emit [DeleteDocumentCall ident] (w\<lparr>store := st\<rparr>)))
      else (s, w))"

text \<open>
  \<open>setViewMode\<close> is the in-app navigation between the library and the creator.
\<close>

definition setViewMode :: "ViewMode \<Rightarrow> AppState \<Rightarrow> AppState" where
  "setViewMode v s = s\<lparr>viewMode := v\<rparr>"

text \<open>
  The part of the browser \<open>openDoc\<close> acts on: the object URLs that are live, each
  with the bytes and the type of its blob, and the timers that are pending, each with the
  time it is due.  \<open>setTimeout(f, d)\<close> queues \<open>f\<close> to run once \<open>d\<close> milliseconds
  have passed; \<open>advance dt\<close> lets \<open>dt\<close> milliseconds pass and runs what is due.
\<close>

datatype timer_task = RevokeObjectURL jsstring

datatype browser_call =
    CreateObjectURLCall ArrayBuffer jsstring
  | WindowOpenCall jsstring jsstring
  | AlertCall alert_msg
  | SetTimeoutCall timer_task nat

record browser =
  clock :: nat
  objectURLs :: "(jsstring \<times> ArrayBuffer \<times> jsstring) list"
  timers :: "(nat \<times> timer_task) list"
  calls :: "browser_call list"

fun run_task :: "timer_task \<Rightarrow> browser \<Rightarrow> browser" where
  "run_task (RevokeObjectURL u) b = b\<lparr>objectURLs := filter (\<lambda>e. fst e \<noteq> u) (objectURLs b)\<rparr>"

definition advance :: "nat \<Rightarrow> browser \<Rightarrow> browser" where
  "advance dt b =
     (let now = clock b + dt in
      fold (\<lambda>t. run_task (snd t)) (filter (\<lambda>t. fst t \<le> now) (timers b))
        (b\<lparr>clock := now, timers := filter (\<lambda>t. \<not> fst t \<le> now) (timers b)\<rparr>))"

text \<open>
  \<open>openDoc\<close>: \<open>url\<close> is what \<open>URL.createObjectURL\<close> returns and \<open>opened\<close>
  tells whether \<open>window.open\<close> returned a window.  The handler returns nothing and
  sets no state cell; the identifier \<open>setTimeout\<close> returns is dropped.
\<close>

definition openDoc ::
  "PDFDocument \<Rightarrow> jsstring \<Rightarrow> bool \<Rightarrow> AppState \<Rightarrow> browser \<Rightarrow> AppState \<times> browser" where
  "openDoc doc url opened s b =
     (let blob = (doc_data doc, str ''application/pdf'') in
      (s,
       b\<lparr>objectURLs := objectURLs b @ [(url, blob)],
         timers := timers b @ [(clock b + 60000, RevokeObjectURL url)],
         calls := calls b
           @ [CreateObjectURLCall (fst blob) (snd blob), WindowOpenCall url (str ''_blank'')]
           @ (if opened then [] else [AlertCall AllowPopups])
           @ [SetTimeoutCall (RevokeObjectURL url) 60000]\<rparr>))"

text \<open>
  What one run of \<open>loadDocuments\<close> does to the outside, and the cache it leaves,
  given what \<open>getDocuments\<close> settles with on the store \<open>st\<close>.
\<close>

definition load_events :: "error + PDFDocument list \<Rightarrow> event list" where
  "load_events r = GetDocumentsCall # (case r of Inl e \<Rightarrow> [ConsoleError e] | Inr docs \<Rightarrow> [])"

definition reloaded :: "'st Storage \<Rightarrow> 'st \<Rightarrow> AppState \<Rightarrow> PDFDocument list" where
  "reloaded api st s =
     (case fst (getDocuments api st) of
        Inl e \<Rightarrow> documents s
      | Inr docs \<Rightarrow> js_sort by_addedAt_desc docs)"

text \<open>Most recent first: no document stands in front of a more recent one.\<close>

definition newest_first :: "PDFDocument list \<Rightarrow> bool" where
  "newest_first ds = sorted_wrt (\<lambda>a b. addedAt b \<le> addedAt a) ds"

section \<open>Concrete collaborators and inputs\<close>

text \<open>
  Modelled from the spec: \<open>services/storage.ts\<close> is not among the sources.  The
  specification describes a keyed collection in which \<open>put\<close> inserts a record or
  replaces the one with the same id, \<open>delete\<close> removes the record if present and
  succeeds otherwise, and \<open>list\<close> returns every record.
\<close>

definition memStorage :: "(PDFDocument list) Storage" where
  "memStorage =
     \<lparr>getDocuments = (\<lambda>st. (Inr st, st)),
      saveDocument = (\<lambda>d st.
         (Inr (),
          if doc_id d \<in> doc_id ` set st
          then map (\<lambda>x. if doc_id x = doc_id d then d else x) st
          else st @ [d])),
      deleteDocument = (\<lambda>i st. (Inr (), filter (\<lambda>x. doc_id x \<noteq> i) st))\<rparr>"

text \<open>
  Modelled from the spec: a store whose engine cannot be opened; every operation fails
  with \<open>StorageUnavailable\<close> and changes nothing.
\<close>

definition offlineStorage :: "(PDFDocument list) Storage" where
  "offlineStorage =
     \<lparr>getDocuments = (\<lambda>st. (Inl StorageUnavailable, st)),
      saveDocument = (\<lambda>d st. (Inl StorageUnavailable, st)),
      deleteDocument = (\<lambda>i st. (Inl StorageUnavailable, st))\<rparr>"

text \<open>
  A renderer with the shape of the library: it keeps the lines it is given, refuses
  code units outside Latin-1, and writes the file signature followed by the text.
\<close>

definition plainPDF :: "(jsstring list) jsPDF" where
  "plainPDF =
     \<lparr>new_jsPDF = (\<lambda>orientation unit format. Inr []),
      setFont = (\<lambda>family style d. Inr d),
      setProperties = (\<lambda>title creator d. Inr d),
      setFontSize = (\<lambda>n d. Inr d),
      splitTextToSize = (\<lambda>t width d. Inr [t]),
      pdf_text = (\<lambda>lines x y d.
         if list_all (\<lambda>c. c \<le> 0xFF) (concat lines) then Inr (d @ lines)
         else Inl UnsupportedContent),
      pdf_output = (\<lambda>d. Inr ([0x25, 0x50, 0x44, 0x46, 0x2D] @ map ucast (concat d)))\<rparr>"

definition env1 :: Env where
  "env1 = \<lparr>randomUUID = Inr (str ''doc-1''), dateNow = 1700000000000\<rparr>"

definition world0 :: "(PDFDocument list) world" where
  "world0 = \<lparr>store = [], trace = []\<rparr>"

definition mkDoc :: "string \<Rightarrow> int \<Rightarrow> PDFDocument" where
  "mkDoc i t =
     \<lparr>doc_id = str i, doc_name = str i, description = None, doc_size = 1,
      doc_type = str ''application/pdf'', doc_data = [0x25], coverImage = None,
      addedAt = t\<rparr>"

definition shelf :: "(PDFDocument list) world" where
  "shelf = \<lparr>store = [mkDoc ''t2'' 2000, mkDoc ''t1'' 1000, mkDoc ''t3'' 3000], trace = []\<rparr>"

text \<open>Three files a user may choose, and the upload form holding one of them.\<close>

definition pdfFile :: File where
  "pdfFile = \<lparr>file_name = str ''report.pdf'', file_size = 5,
      file_type = str ''application/pdf'',
      arrayBuffer = Inr [0x25, 0x50, 0x44, 0x46, 0x2D]\<rparr>"

definition txtFile :: File where
  "txtFile = \<lparr>file_name = str ''notes.txt'', file_size = 2,
      file_type = str ''text/plain'', arrayBuffer = Inr [0x68, 0x69]\<rparr>"

definition twicePdf :: File where
  "twicePdf = \<lparr>file_name = str ''a.pdf.b.pdf'', file_size = 5,
      file_type = str ''application/pdf'',
      arrayBuffer = Inr [0x25, 0x50, 0x44, 0x46, 0x2D]\<rparr>"

definition uploading :: "File \<Rightarrow> AppState" where
  "uploading f = initialState\<lparr>showUploadModal := True, uploadFile := Some f\<rparr>"

text \<open>The records these uploads hand to the store.\<close>

definition reportDoc :: PDFDocument where
  "reportDoc = \<lparr>doc_id = str ''doc-1'', doc_name = str ''report'', description = None,
      doc_size = 5, doc_type = str ''application/pdf'',
      doc_data = [0x25, 0x50, 0x44, 0x46, 0x2D],
      coverImage = None, addedAt = 1700000000000\<rparr>"

definition txtDoc :: PDFDocument where
  "txtDoc = \<lparr>doc_id = str ''doc-1'', doc_name = str ''notes.txt'', description = None,
      doc_size = 2, doc_type = str ''text/plain'', doc_data = [0x68, 0x69],
      coverImage = None, addedAt = 1700000000000\<rparr>"

definition twiceDoc :: PDFDocument where
  "twiceDoc = \<lparr>doc_id = str ''doc-1'', doc_name = str ''a.b.pdf'', description = None,
      doc_size = 5, doc_type = str ''application/pdf'',
      doc_data = [0x25, 0x50, 0x44, 0x46, 0x2D],
      coverImage = None, addedAt = 1700000000000\<rparr>"

definition oneReport :: "(PDFDocument list) world" where
  "oneReport = \<lparr>store = [reportDoc], trace = []\<rparr>"

definition cachedReport :: AppState where
  "cachedReport = initialState\<lparr>documents := [reportDoc]\<rparr>"



text \<open>A browser with nothing open, and the URL it gives to the first blob.\<close>

definition browser0 :: browser where
  "browser0 = \<lparr>clock = 0, objectURLs = [], timers = [], calls = []\<rparr>"

definition blobURL :: jsstring where
  "blobURL = str ''blob:1''"

text \<open>Creator forms: a blank title, a title the renderer refuses, and a good one.\<close>

definition blankTitle :: AppState where
  "blankTitle = initialState\<lparr>creatorTitle := str ''   '', creatorContent := str ''Hello world''\<rparr>"

definition unsupportedTitle :: AppState where
  "unsupportedTitle = initialState\<lparr>creatorTitle := [0x4E2D], creatorContent := str ''Hello world''\<rparr>"

definition notesForm :: AppState where
  "notesForm = initialState\<lparr>creatorTitle := str ''Notes'', creatorContent := str ''Hello world''\<rparr>"

definition notesDoc :: PDFDocument where
  "notesDoc = \<lparr>doc_id = str ''doc-1'', doc_name = str ''Notes'',
      description = Some (str ''Gerado internamente''),
      doc_size = 21, doc_type = str ''application/pdf'',
      doc_data = [0x25, 0x50, 0x44, 0x46, 0x2D, 0x4E, 0x6F, 0x74, 0x65, 0x73,
                  0x48, 0x65, 0x6C, 0x6C, 0x6F, 0x20, 0x77, 0x6F, 0x72, 0x6C, 0x64],
      coverImage = None, addedAt = 1700000000000\<rparr>"

section \<open>Events and the store\<close>

lemma trace_emit [simp]: "trace (emit evs w) = trace w @ evs"
  by (simp add: emit_def)

lemma store_emit [simp]: "store (emit evs w) = store w"
  by (simp add: emit_def)

lemma events_since_emit [simp]: "events_since w (emit evs w) = evs"
  by (simp add: events_since_def)

lemma loadDocuments_trace:
  "trace (snd (loadDocuments api s w)) = trace w @ load_events (fst (getDocuments api (store w)))"
  by (simp add: loadDocuments_def load_events_def split: prod.splits sum.splits)

lemma loadDocuments_documents:
  "documents (fst (loadDocuments api s w)) = reloaded api (store w) s"
  by (simp add: loadDocuments_def reloaded_def split: prod.splits sum.splits)

lemma loadDocuments_frame:
  "fst (loadDocuments api s w) = s\<lparr>documents := reloaded api (store w) s\<rparr>"
  by (simp add: loadDocuments_def reloaded_def split: prod.splits sum.splits)

text \<open>The only records a handler hands to the store are the ones it builds itself.\<close>

lemma confirmUpload_saves:
  assumes "SaveDocumentCall d \<in> set (events_since w (snd (confirmUpload api env s w)))"
  shows "\<exists>f buf uuid. uploadFile s = Some f \<and> arrayBuffer f = Inr buf
           \<and> randomUUID env = Inr uuid \<and> d = uploadDoc s f buf uuid (dateNow env)"
  using assms
  by (auto simp add: confirmUpload_def events_since_def loadDocuments_def Let_def emit_def
      split: option.splits sum.splits prod.splits)

lemma handleCreatePDF_saves:
  assumes "SaveDocumentCall d \<in> set (events_since w (snd (handleCreatePDF api lib env s w)))"
  shows "\<exists>buf uuid. createPDF lib (creatorTitle s) (creatorContent s) = Inr buf
           \<and> randomUUID env = Inr uuid \<and> d = createdDoc s buf uuid (dateNow env)"
  using assms
  by (auto simp add: handleCreatePDF_def events_since_def loadDocuments_def Let_def emit_def
      split: option.splits sum.splits prod.splits if_splits)

section \<open>Replacing the first occurrence\<close>

lemma starts_with_iff: "starts_with p s \<longleftrightarrow> (\<exists>t. s = p @ t)"
  by (induction p s rule: starts_with.induct) auto

lemma js_replace_first:
  assumes "s = pre @ pat @ post"
    and "\<And>pre' post'. s = pre' @ pat @ post' \<Longrightarrow> length pre \<le> length pre'"
  shows "js_replace pat rep s = pre @ rep @ post"
  using assms
proof (induction pre arbitrary: s)
  case Nil
  then have s: "s = pat @ post" by simp
  show ?case
  proof (cases s)
    case Nil
    with s show ?thesis by simp
  next
    case (Cons c cs)
    with s have eq: "c # cs = pat @ post" by simp
    then have "starts_with pat (c # cs)"
      by (simp add: starts_with_iff)
    moreover have "drop (length pat) (c # cs) = post"
      unfolding eq by simp
    ultimately show ?thesis
      using Cons by simp
  qed
next
  case (Cons x pre)
  have no: "\<not> starts_with pat s"
  proof
    assume "starts_with pat s"
    then obtain t where "s = [] @ pat @ t"
      by (auto simp add: starts_with_iff)
    from Cons.prems(2) [OF this] show False by simp
  qed
  have least: "\<And>pre' post'. pre @ pat @ post = pre' @ pat @ post' \<Longrightarrow> length pre \<le> length pre'"
  proof -
    fix pre' post'
    assume "pre @ pat @ post = pre' @ pat @ post'"
    then have "s = (x # pre') @ pat @ post'"
      using Cons.prems(1) by simp
    from Cons.prems(2) [OF this] show "length pre \<le> length pre'" by simp
  qed
  have "js_replace pat rep (pre @ pat @ post) = pre @ rep @ post"
    by (rule Cons.IH [OF refl least])
  with no Cons.prems(1) show ?case by simp
qed

lemma js_replace_absent:
  assumes "pat \<noteq> []" and "\<And>pre post. s \<noteq> pre @ pat @ post"
  shows "js_replace pat rep s = s"
  using assms
proof (induction s)
  case Nil
  then show ?case by simp
next
  case (Cons c cs)
  have no: "\<not> starts_with pat (c # cs)"
  proof
    assume "starts_with pat (c # cs)"
    then obtain t where "c # cs = [] @ pat @ t"
      by (auto simp add: starts_with_iff)
    with Cons.prems(2) show False by blast
  qed
  have "\<And>pre post. cs \<noteq> pre @ pat @ post"
  proof
    fix pre post
    assume "cs = pre @ pat @ post"
    then have "c # cs = (c # pre) @ pat @ post" by simp
    with Cons.prems(2) show False by blast
  qed
  with Cons.IH [OF Cons.prems(1)] have "js_replace pat rep cs = cs" by blast
  with no show ?case by simp
qed

text \<open>
  Choosing a file while the name field is empty fills the field with the stripped file
  name, and the upload that follows stores that same name.
\<close>

lemma handleFileSelect_then_name:
  assumes "uploadName s = []" and "s' = handleFileSelect (Some (f # rest)) s"
  shows "uploadFile s' = Some f
         \<and> doc_name (uploadDoc s' f buf uuid now) = js_replace (str ''.pdf'') [] (file_name f)"
  using assms by (simp add: handleFileSelect_def uploadDoc_def Let_def)

section \<open>Sorting by recency\<close>

lemma mset_sort_insert: "mset (sort_insert cmp a bs) = add_mset a (mset bs)"
  by (induction bs) auto

lemma mset_js_sort: "mset (js_sort cmp ds) = mset ds"
  by (induction ds) (auto simp add: mset_sort_insert)

lemma set_sort_insert: "set (sort_insert cmp a bs) = insert a (set bs)"
  by (induction bs) auto

lemma newest_first_sort_insert:
  "newest_first bs \<Longrightarrow> newest_first (sort_insert by_addedAt_desc a bs)"
  unfolding newest_first_def
  by (induction bs) (auto simp add: set_sort_insert by_addedAt_desc_def)

lemma newest_first_js_sort: "newest_first (js_sort by_addedAt_desc ds)"
proof (induction ds)
  case Nil
  show ?case by (simp add: newest_first_def)
next
  case (Cons a ds)
  then show ?case by (simp add: newest_first_sort_insert)
qed

text \<open>Documents of the same age keep the order the store returned them in.\<close>

lemma sort_insert_same_age:
  "newest_first bs \<Longrightarrow>
   filter (\<lambda>x. addedAt x = t) (sort_insert by_addedAt_desc a bs)
     = filter (\<lambda>x. addedAt x = t) (a # bs)"
  unfolding newest_first_def
  by (induction bs) (auto simp add: by_addedAt_desc_def)

lemma js_sort_stable:
  "filter (\<lambda>x. addedAt x = t) (js_sort by_addedAt_desc ds) = filter (\<lambda>x. addedAt x = t) ds"
proof (induction ds)
  case Nil
  show ?case by simp
next
  case (Cons a ds)
  have "filter (\<lambda>x. addedAt x = t) (js_sort by_addedAt_desc (a # ds))
          = filter (\<lambda>x. addedAt x = t) (a # js_sort by_addedAt_desc ds)"
    by (simp only: js_sort.simps sort_insert_same_age [OF newest_first_js_sort])
  with Cons.IH show ?case by simp
qed

text \<open>Three documents of distinct ages have one arrangement that is newest first.\<close>

lemma newest_first_three:
  assumes "newest_first ys" and "mset ys = {#da, db, dc#}"
    and "addedAt da < addedAt db" and "addedAt db < addedAt dc"
  shows "ys = [dc, db, da]"
proof -
  have "size (mset ys) = 3" using assms(2) by simp
  then have "length ys = 3" by simp
  then obtain a b c where ys: "ys = [a, b, c]"
    by (auto simp add: length_Suc_conv numeral_3_eq_3)
  have ord: "addedAt b \<le> addedAt a" "addedAt c \<le> addedAt b"
    using assms(1) unfolding ys newest_first_def by auto
  have mem: "a \<in># {#da, db, dc#}" "b \<in># {#da, db, dc#}" "c \<in># {#da, db, dc#}"
    using assms(2) unfolding ys by (metis in_multiset_in_set list.set_intros(1,2))+
  have d: "dc \<in> set ys" "db \<in> set ys" "da \<in> set ys"
    using assms(2) by (metis in_multiset_in_set union_single_eq_member add_mset_commute)+
  show ?thesis
    using ord mem d assms(3,4) unfolding ys by auto
qed

section \<open>Timers\<close>

lemma live_run_task:
  "u \<notin> fst ` set (objectURLs b) \<Longrightarrow> u \<notin> fst ` set (objectURLs (run_task t b))"
  by (cases t) auto

lemma live_fold_tasks:
  "u \<notin> fst ` set (objectURLs b) \<Longrightarrow>
   u \<notin> fst ` set (objectURLs (fold (\<lambda>t. run_task (snd t)) ts b))"
  by (induction ts arbitrary: b) (auto simp add: live_run_task simp del: run_task.simps)

lemma revoked_by_fold:
  "(due, RevokeObjectURL u) \<in> set ts \<Longrightarrow>
   u \<notin> fst ` set (objectURLs (fold (\<lambda>t. run_task (snd t)) ts b))"
proof (induction ts arbitrary: b)
  case Nil
  then show ?case by simp
next
  case (Cons t ts)
  show ?case
  proof (cases "t = (due, RevokeObjectURL u)")
    case True
    have "u \<notin> fst ` set (objectURLs (run_task (RevokeObjectURL u) b))"
      by auto
    then have "u \<notin> fst ` set (objectURLs (fold (\<lambda>t. run_task (snd t)) ts
                 (run_task (RevokeObjectURL u) b)))"
      by (rule live_fold_tasks)
    with True show ?thesis by simp
  next
    case False
    with Cons.prems have "(due, RevokeObjectURL u) \<in> set ts" by simp
    from Cons.IH [OF this] show ?thesis by simp
  qed
qed

lemma advance_revokes:
  assumes "(due, RevokeObjectURL u) \<in> set (timers b)" and "due \<le> clock b + dt"
  shows "u \<notin> fst ` set (objectURLs (advance dt b))"
proof -
  from assms
  have "(due, RevokeObjectURL u) \<in> set (filter (\<lambda>t. fst t \<le> clock b + dt) (timers b))"
    by simp
  then show ?thesis
    unfolding advance_def Let_def by (rule revoked_by_fold)
qed

section \<open>The handlers on the concrete inputs\<close>

lemma world0_trace: "trace world0 = []"
  by (simp add: world0_def)


lemma open_report:
  "openDoc reportDoc blobURL True cachedReport browser0 =
     (cachedReport,
      \<lparr>clock = 0,
       objectURLs = [(blobURL, [0x25, 0x50, 0x44, 0x46, 0x2D], str ''application/pdf'')],
       timers = [(60000, RevokeObjectURL blobURL)],
       calls = [CreateObjectURLCall [0x25, 0x50, 0x44, 0x46, 0x2D] (str ''application/pdf''),
                WindowOpenCall blobURL (str ''_blank''),
                SetTimeoutCall (RevokeObjectURL blobURL) 60000]\<rparr>)"
  by (simp add: openDoc_def browser0_def reportDoc_def Let_def)

lemma upload_txt:
  "confirmUpload memStorage env1 (uploading txtFile) world0 =
     (initialState\<lparr>documents := [txtDoc]\<rparr>,
      \<lparr>store = [txtDoc], trace = [SaveDocumentCall txtDoc, GetDocumentsCall]\<rparr>)"
  by (simp add: confirmUpload_def uploading_def txtFile_def initialState_def env1_def world0_def
      memStorage_def uploadDoc_def txtDoc_def loadDocuments_def emit_def resetUploadForm_def
      Let_def str_def)

lemma upload_pdf:
  "confirmUpload memStorage env1 (uploading pdfFile) world0 =
     (initialState\<lparr>documents := [reportDoc]\<rparr>,
      \<lparr>store = [reportDoc], trace = [SaveDocumentCall reportDoc, GetDocumentsCall]\<rparr>)"
  by (simp add: confirmUpload_def uploading_def pdfFile_def initialState_def env1_def world0_def
      memStorage_def uploadDoc_def reportDoc_def loadDocuments_def emit_def resetUploadForm_def
      Let_def str_def)

lemma upload_twice:
  "confirmUpload memStorage env1 (uploading twicePdf) world0 =
     (initialState\<lparr>documents := [twiceDoc]\<rparr>,
      \<lparr>store = [twiceDoc], trace = [SaveDocumentCall twiceDoc, GetDocumentsCall]\<rparr>)"
  by (simp add: confirmUpload_def uploading_def twicePdf_def initialState_def env1_def world0_def
      memStorage_def uploadDoc_def twiceDoc_def loadDocuments_def emit_def resetUploadForm_def
      Let_def str_def)

lemma create_notes:
  "handleCreatePDF memStorage plainPDF env1 notesForm world0 =
     (initialState\<lparr>documents := [notesDoc]\<rparr>,
      \<lparr>store = [notesDoc],
       trace = [CreatePDFCall (str ''Notes'') (str ''Hello world''),
                SaveDocumentCall notesDoc, GetDocumentsCall, Alert PdfCreated]\<rparr>)"
  by (simp add: handleCreatePDF_def notesForm_def initialState_def env1_def world0_def
      memStorage_def createdDoc_def notesDoc_def loadDocuments_def emit_def
      createPDF_def plainPDF_def andThen_def js_trim_def isWhiteSpace_def
      Let_def str_def)

lemma uploading_fields:
  "uploadFile (uploading f) = Some f" "uploadName (uploading f) = []"
  by (simp_all add: uploading_def initialState_def)

lemma report_is_saved:
  "SaveDocumentCall reportDoc
     \<in> set (events_since world0 (snd (confirmUpload memStorage env1 (uploading pdfFile) world0)))"
  unfolding upload_pdf events_since_def by (simp add: world0_trace)

lemma notes_is_saved:
  "SaveDocumentCall notesDoc
     \<in> set (events_since world0 (snd (handleCreatePDF memStorage plainPDF env1 notesForm world0)))"
  unfolding create_notes events_since_def by (simp add: world0_trace)

lemma twice_is_saved:
  "SaveDocumentCall twiceDoc
     \<in> set (events_since world0 (snd (confirmUpload memStorage env1 (uploading twicePdf) world0)))"
  unfolding upload_twice events_since_def by (simp add: world0_trace)

lemma uploadDoc_report:
  "uploadDoc (uploading pdfFile) pdfFile [0x25, 0x50, 0x44, 0x46, 0x2D] (str ''doc-1'')
     (dateNow env1) = reportDoc"
  by (simp add: uploadDoc_def uploading_def initialState_def pdfFile_def reportDoc_def env1_def
      str_def)

lemma createPDF_notes:
  "createPDF plainPDF (str ''Notes'') (str ''Hello world'')
     = Inr [0x25, 0x50, 0x44, 0x46, 0x2D, 0x4E, 0x6F, 0x74, 0x65, 0x73,
            0x48, 0x65, 0x6C, 0x6C, 0x6F, 0x20, 0x77, 0x6F, 0x72, 0x6C, 0x64]"
  by (simp add: createPDF_def plainPDF_def andThen_def str_def)

lemma createdDoc_notes:
  "createdDoc notesForm [0x25, 0x50, 0x44, 0x46, 0x2D, 0x4E, 0x6F, 0x74, 0x65, 0x73,
            0x48, 0x65, 0x6C, 0x6C, 0x6F, 0x20, 0x77, 0x6F, 0x72, 0x6C, 0x64] (str ''doc-1'')
     (dateNow env1) = notesDoc"
  by (simp add: createdDoc_def notesForm_def initialState_def notesDoc_def env1_def str_def)

lemma notesForm_fields:
  "creatorTitle notesForm = str ''Notes''" "creatorContent notesForm = str ''Hello world''"
  by (simp_all add: notesForm_def initialState_def)

lemma notesForm_not_blank:
  "js_trim (str ''Notes'') \<noteq> []" "js_trim (str ''Hello world'') \<noteq> []"
  by (simp_all add: js_trim_def isWhiteSpace_def str_def)

lemma blankTitle_trim: "js_trim (creatorTitle blankTitle) = []"
  by (simp add: blankTitle_def initialState_def str_def js_trim_def isWhiteSpace_def)

lemma unsupportedTitle_facts:
  "js_trim (creatorTitle unsupportedTitle) \<noteq> []"
  "js_trim (creatorContent unsupportedTitle) \<noteq> []"
  "createPDF plainPDF (creatorTitle unsupportedTitle) (creatorContent unsupportedTitle)
     = Inl UnsupportedContent"
  by (simp_all add: unsupportedTitle_def initialState_def str_def js_trim_def isWhiteSpace_def
        createPDF_def plainPDF_def andThen_def)

lemma twice_first_occurrence:
  "str ''a.pdf.b.pdf'' = pre' @ str ''.pdf'' @ post' \<Longrightarrow> length (str ''a'') \<le> length pre'"
  by (cases pre') (simp_all add: str_def)

section \<open>The records handed to the store\<close>




text \<open>
  C3, as the claim has it, fails on the upload path: a chosen text file is stored with
  the type the browser reports for it.
\<close>

theorem upload_type_counterexample:
  "events_since world0 (snd (confirmUpload memStorage env1 (uploading txtFile) world0))
     = [SaveDocumentCall txtDoc, GetDocumentsCall]
   \<and> store (snd (confirmUpload memStorage env1 (uploading txtFile) world0)) = [txtDoc]
   \<and> doc_type txtDoc \<noteq> str ''application/pdf''"
  unfolding upload_txt events_since_def
  by (simp add: world0_def txtDoc_def str_def)

text \<open>
  C3, amended.  A record stored on the create path has the type \<open>application/pdf\<close>;
  a record stored on the upload path has the type of the chosen file
  (\<open>uploadFile.type\<close>), whatever that is.
\<close>

theorem saved_type:
  "(uploadFile s = Some f
      \<and> SaveDocumentCall d \<in> set (events_since w (snd (confirmUpload api env s w)))
     \<longrightarrow> doc_type d = file_type f)
   \<and> (SaveDocumentCall d' \<in> set (events_since w' (snd (handleCreatePDF api' lib env' s' w')))
     \<longrightarrow> doc_type d' = str ''application/pdf'')"
proof (intro conjI impI)
  assume a: "uploadFile s = Some f
      \<and> SaveDocumentCall d \<in> set (events_since w (snd (confirmUpload api env s w)))"
  then obtain buf uuid where "d = uploadDoc s f buf uuid (dateNow env)"
    using confirmUpload_saves [of d w api env s] by auto
  then show "doc_type d = file_type f"
    by (simp add: uploadDoc_def)
next
  assume "SaveDocumentCall d' \<in> set (events_since w' (snd (handleCreatePDF api' lib env' s' w')))"
  then obtain buf uuid where "d' = createdDoc s' buf uuid (dateNow env')"
    using handleCreatePDF_saves [of d' w' api' lib env' s'] by auto
  then show "doc_type d' = str ''application/pdf''"
    by (simp add: createdDoc_def)
qed

theorem saved_type_witness:
  "uploadFile (uploading pdfFile) = Some pdfFile
   \<and> SaveDocumentCall reportDoc
       \<in> set (events_since world0 (snd (confirmUpload memStorage env1 (uploading pdfFile) world0)))
   \<and> doc_type reportDoc = file_type pdfFile
   \<and> SaveDocumentCall notesDoc
       \<in> set (events_since world0 (snd (handleCreatePDF memStorage plainPDF env1 notesForm world0)))
   \<and> doc_type notesDoc = str ''application/pdf''"
proof -
  from saved_type
         [where f = pdfFile and s = "uploading pdfFile" and d = reportDoc and w = world0
            and api = memStorage and env = env1 and d' = notesDoc and w' = world0
            and api' = memStorage and lib = plainPDF and env' = env1 and s' = notesForm]
    uploading_fields(1) [of pdfFile] report_is_saved notes_is_saved
  show ?thesis by blast
qed

text \<open>
  C10.  When the name field is empty at upload time, the stored name is the chosen
  file's name with the first occurrence of \<open>.pdf\<close> removed and nothing else: where
  \<open>.pdf\<close> occurs, the text before its first occurrence and the text after it are
  joined, later occurrences included; where it does not occur, the name is kept.
\<close>

theorem upload_default_name:
  assumes "uploadName s = []" and "uploadFile s = Some f"
    and "SaveDocumentCall d \<in> set (events_since w (snd (confirmUpload api env s w)))"
  shows "(\<forall>pre post.
            file_name f = pre @ str ''.pdf'' @ post
            \<and> (\<forall>pre' post'. file_name f = pre' @ str ''.pdf'' @ post'
                  \<longrightarrow> length pre \<le> length pre')
            \<longrightarrow> doc_name d = pre @ post)
         \<and> ((\<forall>pre post. file_name f \<noteq> pre @ str ''.pdf'' @ post)
            \<longrightarrow> doc_name d = file_name f)"
proof -
  obtain buf uuid where "d = uploadDoc s f buf uuid (dateNow env)"
    using confirmUpload_saves [OF assms(3)] assms(2) by auto
  with assms(1) have name: "doc_name d = js_replace (str ''.pdf'') [] (file_name f)"
    by (simp add: uploadDoc_def)
  have ne: "str ''.pdf'' \<noteq> []"
    by (simp add: str_def)
  show ?thesis
  proof (intro conjI allI impI)
    fix pre post
    assume h: "file_name f = pre @ str ''.pdf'' @ post
      \<and> (\<forall>pre' post'. file_name f = pre' @ str ''.pdf'' @ post'
            \<longrightarrow> length pre \<le> length pre')"
    then have "js_replace (str ''.pdf'') [] (file_name f) = pre @ [] @ post"
      by (intro js_replace_first) auto
    with name show "doc_name d = pre @ post" by simp
  next
    assume "\<forall>pre post. file_name f \<noteq> pre @ str ''.pdf'' @ post"
    then have "js_replace (str ''.pdf'') [] (file_name f) = file_name f"
      using ne by (intro js_replace_absent) auto
    with name show "doc_name d = file_name f" by simp
  qed
qed

theorem upload_default_name_witness:
  "uploadName (uploading twicePdf) = [] \<and> uploadFile (uploading twicePdf) = Some twicePdf
   \<and> SaveDocumentCall twiceDoc
       \<in> set (events_since world0 (snd (confirmUpload memStorage env1 (uploading twicePdf) world0)))
   \<and> file_name twicePdf = str ''a'' @ str ''.pdf'' @ str ''.b.pdf''
   \<and> doc_name twiceDoc = str ''a'' @ str ''.b.pdf''"
proof -
  have split: "file_name twicePdf = str ''a'' @ str ''.pdf'' @ str ''.b.pdf''"
    by (simp add: twicePdf_def str_def)
  have least: "\<forall>pre' post'. file_name twicePdf = pre' @ str ''.pdf'' @ post'
             \<longrightarrow> length (str ''a'') \<le> length pre'"
    using twice_first_occurrence by (simp add: twicePdf_def)
  from upload_default_name
         [OF uploading_fields(2) [of twicePdf] uploading_fields(1) [of twicePdf] twice_is_saved]
    split least
  have "doc_name twiceDoc = str ''a'' @ str ''.b.pdf''" by blast
  with uploading_fields [of twicePdf] twice_is_saved split show ?thesis by blast
qed

section \<open>The cached view\<close>

text \<open>
  C2.  After a load of the document list the cached view is sorted by \<open>addedAt\<close>,
  most recent first, and holds exactly the records the store returned; documents
  created at \<open>t1 < t2 < t3\<close> are presented in the order \<open>t3, t2, t1\<close>, in whatever
  order the store returns them.  A load that fails leaves the view as it was.
\<close>

theorem loadDocuments_newest_first:
  "(getDocuments api (store w) = (Inr docs, st)
     \<longrightarrow> newest_first (documents (fst (loadDocuments api s w)))
       \<and> mset (documents (fst (loadDocuments api s w))) = mset docs
       \<and> (mset docs = {#da, db, dc#} \<and> addedAt da < addedAt db \<and> addedAt db < addedAt dc
            \<longrightarrow> documents (fst (loadDocuments api s w)) = [dc, db, da]))
   \<and> (getDocuments api' (store w') = (Inl e, st')
     \<longrightarrow> documents (fst (loadDocuments api' s' w')) = documents s')"
proof (intro conjI impI)
  assume g: "getDocuments api (store w) = (Inr docs, st)"
  then have eq: "documents (fst (loadDocuments api s w)) = js_sort by_addedAt_desc docs"
    by (simp add: loadDocuments_documents reloaded_def)
  show "newest_first (documents (fst (loadDocuments api s w)))"
    unfolding eq by (rule newest_first_js_sort)
  show "mset (documents (fst (loadDocuments api s w))) = mset docs"
    unfolding eq by (rule mset_js_sort)
  assume "mset docs = {#da, db, dc#} \<and> addedAt da < addedAt db \<and> addedAt db < addedAt dc"
  then show "documents (fst (loadDocuments api s w)) = [dc, db, da]"
    unfolding eq
    by (intro newest_first_three newest_first_js_sort) (simp_all add: mset_js_sort)
next
  assume "getDocuments api' (store w') = (Inl e, st')"
  then show "documents (fst (loadDocuments api' s' w')) = documents s'"
    by (simp add: loadDocuments_documents reloaded_def)
qed

theorem loadDocuments_newest_first_witness:
  "getDocuments memStorage (store shelf)
     = (Inr [mkDoc ''t2'' 2000, mkDoc ''t1'' 1000, mkDoc ''t3'' 3000], store shelf)
   \<and> mset [mkDoc ''t2'' 2000, mkDoc ''t1'' 1000, mkDoc ''t3'' 3000]
       = {#mkDoc ''t1'' 1000, mkDoc ''t2'' 2000, mkDoc ''t3'' 3000#}
   \<and> addedAt (mkDoc ''t1'' 1000) < addedAt (mkDoc ''t2'' 2000)
   \<and> addedAt (mkDoc ''t2'' 2000) < addedAt (mkDoc ''t3'' 3000)
   \<and> documents (fst (loadDocuments memStorage initialState shelf))
       = [mkDoc ''t3'' 3000, mkDoc ''t2'' 2000, mkDoc ''t1'' 1000]
   \<and> getDocuments offlineStorage (store oneReport) = (Inl StorageUnavailable, store oneReport)
   \<and> documents (fst (loadDocuments offlineStorage cachedReport oneReport)) = documents cachedReport"
proof -
  have listed: "getDocuments memStorage (store shelf)
     = (Inr [mkDoc ''t2'' 2000, mkDoc ''t1'' 1000, mkDoc ''t3'' 3000], store shelf)"
    by (simp add: memStorage_def shelf_def)
  have same: "mset [mkDoc ''t2'' 2000, mkDoc ''t1'' 1000, mkDoc ''t3'' 3000]
       = {#mkDoc ''t1'' 1000, mkDoc ''t2'' 2000, mkDoc ''t3'' 3000#}"
    by simp
  have ages: "addedAt (mkDoc ''t1'' 1000) < addedAt (mkDoc ''t2'' 2000)"
    "addedAt (mkDoc ''t2'' 2000) < addedAt (mkDoc ''t3'' 3000)"
    by (simp_all add: mkDoc_def)
  have offline:
    "getDocuments offlineStorage (store oneReport) = (Inl StorageUnavailable, store oneReport)"
    by (simp add: offlineStorage_def)
  from loadDocuments_newest_first
         [where api = memStorage and w = shelf and s = initialState and st = "store shelf"
            and docs = "[mkDoc ''t2'' 2000, mkDoc ''t1'' 1000, mkDoc ''t3'' 3000]"
            and da = "mkDoc ''t1'' 1000" and db = "mkDoc ''t2'' 2000"
            and dc = "mkDoc ''t3'' 3000"
            and api' = offlineStorage and w' = oneReport and st' = "store oneReport"
            and e = StorageUnavailable and s' = cachedReport]
    listed same ages offline
  show ?thesis by simp
qed

text \<open>
  C4.  After each successful store mutation the controller lists the whole store again:
  the call that follows a successful \<open>saveDocument\<close> (in \<open>confirmUpload\<close> and in
  \<open>handleCreatePDF\<close>) or \<open>deleteDocument\<close> (in \<open>deleteDoc\<close>) is \<open>getDocuments\<close>,
  and the cache afterwards is the sorted result of that call on the store the mutation
  left, not a patch of the old cache; only when that call fails does the old cache stay.
\<close>

theorem resync_after_mutation:
  "(uploadFile s = Some f \<and> arrayBuffer f = Inr buf \<and> randomUUID env = Inr uuid
      \<and> saveDocument api (uploadDoc s f buf uuid (dateNow env)) (store w) = (Inr u, st)
     \<longrightarrow> events_since w (snd (confirmUpload api env s w))
           = SaveDocumentCall (uploadDoc s f buf uuid (dateNow env))
             # load_events (fst (getDocuments api st))
       \<and> documents (fst (confirmUpload api env s w)) = reloaded api st s)
   \<and> (js_trim (creatorTitle s) \<noteq> [] \<and> js_trim (creatorContent s) \<noteq> []
      \<and> createPDF lib (creatorTitle s) (creatorContent s) = Inr pdfBuffer
      \<and> randomUUID env = Inr uuid
      \<and> saveDocument api (createdDoc s pdfBuffer uuid (dateNow env)) (store w) = (Inr u, st)
     \<longrightarrow> events_since w (snd (handleCreatePDF api lib env s w))
           = CreatePDFCall (creatorTitle s) (creatorContent s)
             # SaveDocumentCall (createdDoc s pdfBuffer uuid (dateNow env))
             # load_events (fst (getDocuments api st)) @ [Alert PdfCreated]
       \<and> documents (fst (handleCreatePDF api lib env s w)) = reloaded api st s)
   \<and> (deleteDocument api ident (store w) = (Inr u, st)
     \<longrightarrow> events_since w (snd (deleteDoc api ident True s w))
           = DeleteDocumentCall ident # load_events (fst (getDocuments api st))
       \<and> documents (fst (deleteDoc api ident True s w)) = reloaded api st s)"
  by (auto simp add: confirmUpload_def handleCreatePDF_def deleteDoc_def loadDocuments_def
      events_since_def emit_def load_events_def reloaded_def resetUploadForm_def Let_def
      split: prod.splits sum.splits)

theorem resync_after_mutation_witness:
  "saveDocument memStorage reportDoc (store world0) = (Inr (), [reportDoc])
   \<and> events_since world0 (snd (confirmUpload memStorage env1 (uploading pdfFile) world0))
       = [SaveDocumentCall reportDoc, GetDocumentsCall]
   \<and> documents (fst (confirmUpload memStorage env1 (uploading pdfFile) world0)) = [reportDoc]
   \<and> saveDocument memStorage notesDoc (store world0) = (Inr (), [notesDoc])
   \<and> events_since world0 (snd (handleCreatePDF memStorage plainPDF env1 notesForm world0))
       = [CreatePDFCall (str ''Notes'') (str ''Hello world''), SaveDocumentCall notesDoc,
          GetDocumentsCall, Alert PdfCreated]
   \<and> documents (fst (handleCreatePDF memStorage plainPDF env1 notesForm world0)) = [notesDoc]
   \<and> deleteDocument memStorage (str ''doc-1'') (store oneReport) = (Inr (), [])
   \<and> events_since oneReport (snd (deleteDoc memStorage (str ''doc-1'') True cachedReport oneReport))
       = [DeleteDocumentCall (str ''doc-1''), GetDocumentsCall]
   \<and> documents (fst (deleteDoc memStorage (str ''doc-1'') True cachedReport oneReport)) = []"
proof -
  have up: "arrayBuffer pdfFile = Inr [0x25, 0x50, 0x44, 0x46, 0x2D]"
    "randomUUID env1 = Inr (str ''doc-1'')"
    by (simp_all add: pdfFile_def env1_def)
  have s1: "saveDocument memStorage reportDoc (store world0) = (Inr (), [reportDoc])"
    by (simp add: memStorage_def world0_def)
  have s2: "saveDocument memStorage notesDoc (store world0) = (Inr (), [notesDoc])"
    by (simp add: memStorage_def world0_def)
  have s3: "deleteDocument memStorage (str ''doc-1'') (store oneReport) = (Inr (), [])"
    by (simp add: memStorage_def oneReport_def reportDoc_def)
  have l1: "load_events (fst (getDocuments memStorage ds)) = [GetDocumentsCall]" for ds
    by (simp add: load_events_def memStorage_def)
  have l2: "reloaded memStorage [d] s = [d]" "reloaded memStorage [] s = []" for d s
    by (simp_all add: reloaded_def memStorage_def)
  note a = resync_after_mutation
         [where s = "uploading pdfFile" and f = pdfFile and buf = "[0x25, 0x50, 0x44, 0x46, 0x2D]"
            and uuid = "str ''doc-1''" and env = env1 and api = memStorage and w = world0
            and u = "()" and st = "[reportDoc]", THEN conjunct1]
  note b = resync_after_mutation
         [where s = notesForm and lib = plainPDF
            and pdfBuffer = "[0x25, 0x50, 0x44, 0x46, 0x2D, 0x4E, 0x6F, 0x74, 0x65, 0x73,
                0x48, 0x65, 0x6C, 0x6C, 0x6F, 0x20, 0x77, 0x6F, 0x72, 0x6C, 0x64]"
            and uuid = "str ''doc-1''" and env = env1 and api = memStorage and w = world0
            and u = "()" and st = "[notesDoc]", THEN conjunct2, THEN conjunct1]
  note c = resync_after_mutation
         [where s = cachedReport and ident = "str ''doc-1''" and api = memStorage
            and w = oneReport and u = "()" and st = "[]", THEN conjunct2, THEN conjunct2]
  have A: "events_since world0 (snd (confirmUpload memStorage env1 (uploading pdfFile) world0))
       = [SaveDocumentCall reportDoc, GetDocumentsCall]
     \<and> documents (fst (confirmUpload memStorage env1 (uploading pdfFile) world0)) = [reportDoc]"
    using a up s1 uploading_fields(1) [of pdfFile] by (simp add: uploadDoc_report l1 l2)
  have B: "events_since world0 (snd (handleCreatePDF memStorage plainPDF env1 notesForm world0))
       = [CreatePDFCall (str ''Notes'') (str ''Hello world''), SaveDocumentCall notesDoc,
          GetDocumentsCall, Alert PdfCreated]
     \<and> documents (fst (handleCreatePDF memStorage plainPDF env1 notesForm world0)) = [notesDoc]"
    using b up(2) s2 notesForm_not_blank createPDF_notes
    by (simp add: notesForm_fields createdDoc_notes l1 l2)
  have C: "events_since oneReport (snd (deleteDoc memStorage (str ''doc-1'') True cachedReport oneReport))
       = [DeleteDocumentCall (str ''doc-1''), GetDocumentsCall]
     \<and> documents (fst (deleteDoc memStorage (str ''doc-1'') True cachedReport oneReport)) = []"
    using c s3 by (simp add: l1 l2)
  from A B C s1 s2 s3 show ?thesis by simp
qed

section \<open>Guards of the handlers\<close>

text \<open>
  C9.  While no file has been chosen (\<open>uploadFile\<close> is null), \<open>confirmUpload\<close>
  returns at once: nothing is written to the store, no call is made, and every cell of
  the controller state (document cache, form fields, modal visibility, processing flag)
  is as before.
\<close>

theorem confirmUpload_no_file:
  "uploadFile s = None \<Longrightarrow> confirmUpload api env s w = (s, w)"
  by (simp add: confirmUpload_def)

theorem confirmUpload_no_file_witness:
  "uploadFile initialState = None \<and>
   confirmUpload memStorage env1 initialState world0 = (initialState, world0)"
  using confirmUpload_no_file [of initialState memStorage env1 world0]
  by (simp add: initialState_def)

text \<open>
  C8.  When the trimmed title or the trimmed content is empty, \<open>handleCreatePDF\<close>
  rejects the creation: its only effect is the alert, so neither the factory nor the
  store is called, the store is as before, and the controller state, the cached
  document list included, is unchanged.
\<close>

theorem handleCreatePDF_rejects_blank:
  assumes "js_trim (creatorTitle s) = [] \<or> js_trim (creatorContent s) = []"
  shows "handleCreatePDF api lib env s w = (s, emit [Alert TitleAndContentRequired] w)
         \<and> store (snd (handleCreatePDF api lib env s w)) = store w
         \<and> events_since w (snd (handleCreatePDF api lib env s w))
             = [Alert TitleAndContentRequired]"
  using assms by (auto simp add: handleCreatePDF_def)

theorem handleCreatePDF_rejects_blank_witness:
  "(js_trim (creatorTitle blankTitle) = [] \<or> js_trim (creatorContent blankTitle) = [])
   \<and> handleCreatePDF memStorage plainPDF env1 blankTitle world0 =
       (blankTitle, \<lparr>store = [], trace = [Alert TitleAndContentRequired]\<rparr>)"
  using handleCreatePDF_rejects_blank [of blankTitle memStorage plainPDF env1 world0]
    blankTitle_trim
  by (simp add: emit_def world0_def)

text \<open>
  C5.  When the form passes the guard and \<open>createPDF\<close> throws, \<open>handleCreatePDF\<close>
  catches the error and returns normally after logging it and alerting the user.  The
  store is not called, so no document is saved, and the controller state, the cached
  list included, is unchanged.
\<close>

theorem handleCreatePDF_factory_error:
  assumes "js_trim (creatorTitle s) \<noteq> []" and "js_trim (creatorContent s) \<noteq> []"
    and "createPDF lib (creatorTitle s) (creatorContent s) = Inl e"
  shows "handleCreatePDF api lib env s w =
           (s, emit [CreatePDFCall (creatorTitle s) (creatorContent s),
                     ConsoleError e, Alert CreateFailed] w)"
  using assms by (simp add: handleCreatePDF_def)

theorem handleCreatePDF_factory_error_witness:
  "js_trim (creatorTitle unsupportedTitle) \<noteq> []
   \<and> js_trim (creatorContent unsupportedTitle) \<noteq> []
   \<and> createPDF plainPDF (creatorTitle unsupportedTitle) (creatorContent unsupportedTitle)
       = Inl UnsupportedContent
   \<and> handleCreatePDF memStorage plainPDF env1 unsupportedTitle world0 =
       (unsupportedTitle,
        \<lparr>store = [],
         trace = [CreatePDFCall [0x4E2D] (str ''Hello world''),
                  ConsoleError UnsupportedContent, Alert CreateFailed]\<rparr>)"
  using handleCreatePDF_factory_error
          [of unsupportedTitle plainPDF UnsupportedContent memStorage env1 world0]
    unsupportedTitle_facts
  by (simp add: emit_def world0_def unsupportedTitle_def initialState_def)

section \<open>Opening a document\<close>

text \<open>
  C7, as the claim has it, fails: the object URL is not held as a scoped resource.
  \<open>openDoc\<close> leaves the controller state as it was, so neither the URL nor the
  timer is kept anywhere; what remains is one pending timer.  Navigating to the creator
  changes the view mode only, and 59999 ms after the call the URL is still live.
\<close>

theorem openDoc_scoped_counterexample:
  "openDoc reportDoc blobURL True cachedReport browser0 =
     (cachedReport,
      \<lparr>clock = 0,
       objectURLs = [(blobURL, [0x25, 0x50, 0x44, 0x46, 0x2D], str ''application/pdf'')],
       timers = [(60000, RevokeObjectURL blobURL)],
       calls = [CreateObjectURLCall [0x25, 0x50, 0x44, 0x46, 0x2D] (str ''application/pdf''),
                WindowOpenCall blobURL (str ''_blank''),
                SetTimeoutCall (RevokeObjectURL blobURL) 60000]\<rparr>)
   \<and> setViewMode Create (fst (openDoc reportDoc blobURL True cachedReport browser0))
       = cachedReport\<lparr>viewMode := Create\<rparr>
   \<and> objectURLs (advance 59999 (snd (openDoc reportDoc blobURL True cachedReport browser0)))
       = [(blobURL, [0x25, 0x50, 0x44, 0x46, 0x2D], str ''application/pdf'')]"
  unfolding open_report
  by (simp add: advance_def setViewMode_def Let_def)

text \<open>
  C7, amended.  \<open>openDoc\<close> releases each object URL it creates by a fire-and-forget
  timer: it queues \<open>URL.revokeObjectURL(url)\<close> with \<open>setTimeout\<close> at 60000 ms and
  returns with the controller state unchanged, keeping neither the URL nor the timer.
  The URL is live after the call and is revoked once 60000 ms have passed.
\<close>

theorem openDoc_revokes_by_timer:
  "fst (openDoc doc url opened s b) = s
   \<and> timers (snd (openDoc doc url opened s b))
       = timers b @ [(clock b + 60000, RevokeObjectURL url)]
   \<and> calls (snd (openDoc doc url opened s b))
       = calls b
         @ [CreateObjectURLCall (doc_data doc) (str ''application/pdf''),
            WindowOpenCall url (str ''_blank'')]
         @ (if opened then [] else [AlertCall AllowPopups])
         @ [SetTimeoutCall (RevokeObjectURL url) 60000]
   \<and> url \<in> fst ` set (objectURLs (snd (openDoc doc url opened s b)))
   \<and> (60000 \<le> dt
       \<longrightarrow> url \<notin> fst ` set (objectURLs (advance dt (snd (openDoc doc url opened s b)))))"
proof (intro conjI impI)
  assume late: "60000 \<le> dt"
  have pending: "(clock b + 60000, RevokeObjectURL url)
      \<in> set (timers (snd (openDoc doc url opened s b)))"
    by (simp add: openDoc_def Let_def)
  have same_clock: "clock (snd (openDoc doc url opened s b)) = clock b"
    by (simp add: openDoc_def Let_def)
  from late have "clock b + 60000 \<le> clock (snd (openDoc doc url opened s b)) + dt"
    by (simp add: same_clock)
  with pending
  show "url \<notin> fst ` set (objectURLs (advance dt (snd (openDoc doc url opened s b))))"
    by (rule advance_revokes)
qed (simp_all add: openDoc_def Let_def)

theorem openDoc_revokes_by_timer_witness:
  "(60000::nat) \<le> 60000
   \<and> fst (openDoc reportDoc blobURL True cachedReport browser0) = cachedReport
   \<and> blobURL \<in> fst ` set (objectURLs (snd (openDoc reportDoc blobURL True cachedReport browser0)))
   \<and> blobURL \<notin> fst ` set (objectURLs
         (advance 60000 (snd (openDoc reportDoc blobURL True cachedReport browser0))))"
  using openDoc_revokes_by_timer
          [where doc = reportDoc and url = blobURL and opened = True and s = cachedReport
             and b = browser0 and dt = 60000]
  by simp

end
